theory Spec2Isabelle
  imports Main
begin

section \<open>Values that cross the validator's interface\<close>

text \<open>
  Go's \<^verbatim>\<open>error\<close> is an interface value; \<^verbatim>\<open>nil\<close> is \<open>None\<close> of
  \<open>go_error option\<close>. The constructors are the failures the package and its
  specification talk about.
\<close>

datatype go_error =
    Canceled
  | DeadlineExceeded
  | UnknownServiceName string
  | DecodeError string
  | ProviderError string

text \<open>
  A call either comes back with a value or unwinds with a run-time panic.
\<close>

datatype 'a outcome = Returns 'a | Panics string

text \<open>
  \<^verbatim>\<open>context.Context\<close>: what matters of it here is \<^verbatim>\<open>ctx.Err()\<close>, which is
  \<^verbatim>\<open>nil\<close> while the context is live and a cancellation error afterwards.
\<close>

record Context =
  ctx_err :: "go_error option"

text \<open>
  \<^verbatim>\<open>*web.Request\<close>, as far as the package reads it: the verb, which says whether
  the request is a submission, and the parsed form values (each field name with
  its ordered sequence of values).
\<close>

datatype request_kind = GetLike | PostLike

record Request =
  verb :: request_kind
  form_values :: "(string \<times> string list) list"

text \<open>
  \<^verbatim>\<open>formData interface{}\<close>: a value together with its dynamic type. The type
  assertion of \<^verbatim>\<open>Validate\<close> looks at the dynamic type only, so the constructors
  are dynamic types: the nil interface, \<^verbatim>\<open>map[string]string\<close> itself (entries
  as an association list; a nil map of that type has no entries), a named type
  whose underlying type is \<^verbatim>\<open>map[string]string\<close> (a different type for the
  assertion), a struct with its type name and fields, and a pointer.
\<close>

datatype dyn_value =
    NilInterface
  | MapStringString "(string \<times> string) list"
  | NamedMap string "(string \<times> string) list"
  | StructValue string "(string \<times> string) list"
  | PointerTo dyn_value

text \<open>
  Modelled from the spec: the declaration of \<^verbatim>\<open>domain.ValidationInfo\<close> is not among
  the sources. The specification describes it as the aggregate of field-level and
  struct-level validation errors, valid when it holds none. The composite literal
  \<^verbatim>\<open>domain.ValidationInfo{}\<close> is its zero value: no errors of either kind.
\<close>

record ValidationInfo =
  FieldErrors :: "(string \<times> string) list"
  StructErrors :: "string list"

definition zero_ValidationInfo :: ValidationInfo where
  "zero_ValidationInfo = \<lparr>FieldErrors = [], StructErrors = []\<rparr>"

definition findings :: "ValidationInfo \<Rightarrow> nat" where
  "findings vi = length (FieldErrors vi) + length (StructErrors vi)"

definition IsValid :: "ValidationInfo \<Rightarrow> bool" where
  "IsValid vi = (FieldErrors vi = [] \<and> StructErrors vi = [])"

section \<open>The validator provider\<close>

text \<open>
  \<^verbatim>\<open>domain.ValidatorProvider\<close> is an interface; its implementations are not among
  the sources, so the provider is a parameter. An interface value is \<^verbatim>\<open>nil\<close>
  (\<open>None\<close>) or holds an implementation, whose \<^verbatim>\<open>Validate\<close> answers with a
  \<^verbatim>\<open>ValidationInfo\<close> value or panics. The implementation receives the very
  interface value the caller holds, so it may write through a reference in it;
  the second component of its result is the form data as the implementation
  leaves it, whether it answers or panics. Every invocation that reaches an
  implementation is recorded with the arguments it was given.
\<close>

type_synonym provider_impl =
  "Context \<Rightarrow> Request \<Rightarrow> dyn_value \<Rightarrow> ValidationInfo outcome \<times> dyn_value"

type_synonym ValidatorProvider = "provider_impl option"

record provider_call =
  call_ctx :: Context
  call_req :: Request
  call_data :: dyn_value

definition nil_dereference :: string where
  "nil_dereference = ''invalid memory address or nil pointer dereference''"

text \<open>
  What of the callee's writes the caller sees. The interface value itself is
  passed by value: its dynamic type cannot change, and neither can a struct it
  holds by value. A pointer and a map are references: the pointee and the map's
  entries are shared with the callee.
\<close>

fun written_through :: "dyn_value \<Rightarrow> dyn_value \<Rightarrow> dyn_value" where
  "written_through (PointerTo v) (PointerTo v') = PointerTo v'"
| "written_through (NamedMap n m) (NamedMap n' m') = NamedMap n m'"
| "written_through (MapStringString m) (MapStringString m') = MapStringString m'"
| "written_through formData left = formData"

text \<open>
  The call \<^verbatim>\<open>validatorProvider.Validate(ctx, req, formData)\<close>: its outcome, the form
  data as the caller sees it afterwards, and the invocations recorded. On a nil
  interface value the call panics before any implementation runs.
\<close>

definition provider_Validate ::
  "ValidatorProvider \<Rightarrow> Context \<Rightarrow> Request \<Rightarrow> dyn_value \<Rightarrow> provider_call list
     \<Rightarrow> ValidationInfo outcome \<times> dyn_value \<times> provider_call list" where
  "provider_Validate validatorProvider ctx req formData calls =
     (case validatorProvider of
        None \<Rightarrow> (Panics nil_dereference, formData, calls)
      | Some impl \<Rightarrow>
          (fst (impl ctx req formData),
           written_through formData (snd (impl ctx req formData)),
           calls @ [\<lparr>call_ctx = ctx, call_req = req, call_data = formData\<rparr>]))"

section \<open>DefaultFormDataValidatorImpl.Validate\<close>

text \<open>
  \<^verbatim>\<open>DefaultFormDataValidatorImpl struct{}\<close> has no fields. The method has a pointer
  receiver, which it never dereferences, so a nil receiver (\<open>None\<close>) is as good
  as any.
\<close>

datatype DefaultFormDataValidatorImpl = DefaultFormDataValidatorImpl

text \<open>
  The comma-ok type assertion \<^verbatim>\<open>formData.(map[string]string)\<close>: the asserted value
  (the zero value when the assertion fails) and whether the dynamic type is
  exactly \<^verbatim>\<open>map[string]string\<close>.
\<close>

fun assert_MapStringString :: "dyn_value \<Rightarrow> (string \<times> string) list \<times> bool" where
  "assert_MapStringString (MapStringString m) = (m, True)"
| "assert_MapStringString NilInterface = ([], False)"
| "assert_MapStringString (NamedMap n m) = ([], False)"
| "assert_MapStringString (StructValue n fs) = ([], False)"
| "assert_MapStringString (PointerTo v) = ([], False)"

text \<open>
  What a call leaves behind: the pair it returns (a \<^verbatim>\<open>*domain.ValidationInfo\<close>,
  \<open>None\<close> for the nil pointer, and an \<^verbatim>\<open>error\<close>) or the panic that unwinds it,
  the receiver and the form data as they are after the call, and the provider
  invocations made so far. The method body assigns to neither the receiver nor
  the form data; on the delegating branch the form data is handed to the
  provider and is afterwards as that call left it.
\<close>

record validate_exit =
  returned :: "(ValidationInfo option \<times> go_error option) outcome"
  receiver_after :: "DefaultFormDataValidatorImpl option"
  formData_after :: dyn_value
  calls_after :: "provider_call list"

definition Validate ::
  "DefaultFormDataValidatorImpl option \<Rightarrow> Context \<Rightarrow> Request \<Rightarrow> ValidatorProvider \<Rightarrow> dyn_value
     \<Rightarrow> provider_call list \<Rightarrow> validate_exit" where
  "Validate p ctx req validatorProvider formData calls =
     (let (_, ok) = assert_MapStringString formData in
      if ok then
        \<lparr>returned = Returns (Some zero_ValidationInfo, None),
         receiver_after = p, formData_after = formData, calls_after = calls\<rparr>
      else
        (case provider_Validate validatorProvider ctx req formData calls of
           (Panics msg, formData', calls') \<Rightarrow>
             \<lparr>returned = Panics msg,
              receiver_after = p, formData_after = formData', calls_after = calls'\<rparr>
         | (Returns validationInfo, formData', calls') \<Rightarrow>
             \<lparr>returned = Returns (Some validationInfo, None),
              receiver_after = p, formData_after = formData', calls_after = calls'\<rparr>))"

text \<open>
  Whether the provider's \<^verbatim>\<open>Validate\<close> comes back with a value at these arguments:
  a nil provider and a panicking implementation do not.
\<close>

definition provider_returns :: "ValidatorProvider \<Rightarrow> Context \<Rightarrow> Request \<Rightarrow> dyn_value \<Rightarrow> bool" where
  "provider_returns validatorProvider ctx req formData =
     (case validatorProvider of
        None \<Rightarrow> False
      | Some impl \<Rightarrow>
          (case fst (impl ctx req formData) of Returns _ \<Rightarrow> True | Panics _ \<Rightarrow> False))"

section \<open>The pipeline around the validator\<close>

text \<open>
  Modelled from the spec: the service roles, the builder, the handler and the
  result entity are not among the sources; what follows is written from the
  specification (and from the method signatures the repository's documentation
  shows). A provider yields a default data object, a decoder populates a data
  object from the parsed request values, a validator has the signature of
  \<^verbatim>\<open>DefaultFormDataValidatorImpl.Validate\<close>. An extension implements any subset
  of the three roles.
\<close>

type_synonym FormDataProvider = "Context \<Rightarrow> Request \<Rightarrow> go_error + dyn_value"

type_synonym FormDataDecoder =
  "Context \<Rightarrow> Request \<Rightarrow> (string \<times> string list) list \<Rightarrow> dyn_value \<Rightarrow> go_error + dyn_value"

type_synonym FormDataValidator =
  "Context \<Rightarrow> Request \<Rightarrow> ValidatorProvider \<Rightarrow> dyn_value
     \<Rightarrow> (ValidationInfo option \<times> go_error option) outcome"

record FormExtension =
  ext_provider :: "FormDataProvider option"
  ext_decoder :: "FormDataDecoder option"
  ext_validator :: "FormDataValidator option"

text \<open>
  Modelled from the spec: the result entity \<^verbatim>\<open>Form\<close>, with the decoded data, the
  validation result and the submission flag.
\<close>

record Form =
  Data :: dyn_value
  Validation :: ValidationInfo
  IsSubmitted :: bool

text \<open>
  Modelled from the spec: the process-wide named-service registry, one table per
  kind of service, populated at start-up and only read afterwards.
\<close>

record registry =
  named_providers :: "(string \<times> FormDataProvider) list"
  named_decoders :: "(string \<times> FormDataDecoder) list"
  named_validators :: "(string \<times> FormDataValidator) list"
  named_extensions :: "(string \<times> FormExtension) list"

text \<open>
  Modelled from the spec: \<^verbatim>\<open>FormHandlerBuilder\<close>. At most one explicit binding per
  role (\<open>None\<close> while the role is unset) and an append-only list of extensions.
  An instance setter overwrites the binding of its role. A named setter resolves
  the name in the registry and reports \<^verbatim>\<open>UnknownServiceName\<close> when it is absent,
  leaving the builder as it was. \<^verbatim>\<open>Must\<close> hands the builder back on a nil error
  and aborts on any other.
\<close>

record FormHandlerBuilder =
  formDataProvider :: "FormDataProvider option"
  formDataDecoder :: "FormDataDecoder option"
  formDataValidator :: "FormDataValidator option"
  formExtensions :: "FormExtension list"

definition GetFormHandlerBuilder :: FormHandlerBuilder where
  "GetFormHandlerBuilder =
     \<lparr>formDataProvider = None, formDataDecoder = None, formDataValidator = None,
      formExtensions = []\<rparr>"

definition SetFormDataProvider :: "FormDataProvider \<Rightarrow> FormHandlerBuilder \<Rightarrow> FormHandlerBuilder" where
  "SetFormDataProvider instance b = b\<lparr>formDataProvider := Some instance\<rparr>"

definition SetFormDataDecoder :: "FormDataDecoder \<Rightarrow> FormHandlerBuilder \<Rightarrow> FormHandlerBuilder" where
  "SetFormDataDecoder instance b = b\<lparr>formDataDecoder := Some instance\<rparr>"

definition SetFormDataValidator :: "FormDataValidator \<Rightarrow> FormHandlerBuilder \<Rightarrow> FormHandlerBuilder" where
  "SetFormDataValidator instance b = b\<lparr>formDataValidator := Some instance\<rparr>"

definition AddFormExtension ::
  "FormExtension \<Rightarrow> FormHandlerBuilder \<Rightarrow> FormHandlerBuilder \<times> go_error option" where
  "AddFormExtension instance b = (b\<lparr>formExtensions := formExtensions b @ [instance]\<rparr>, None)"

definition SetNamedFormDataProvider ::
  "registry \<Rightarrow> string \<Rightarrow> FormHandlerBuilder \<Rightarrow> FormHandlerBuilder \<times> go_error option" where
  "SetNamedFormDataProvider reg name b =
     (case map_of (named_providers reg) name of
        None \<Rightarrow> (b, Some (UnknownServiceName name))
      | Some instance \<Rightarrow> (SetFormDataProvider instance b, None))"

definition SetNamedFormDataDecoder ::
  "registry \<Rightarrow> string \<Rightarrow> FormHandlerBuilder \<Rightarrow> FormHandlerBuilder \<times> go_error option" where
  "SetNamedFormDataDecoder reg name b =
     (case map_of (named_decoders reg) name of
        None \<Rightarrow> (b, Some (UnknownServiceName name))
      | Some instance \<Rightarrow> (SetFormDataDecoder instance b, None))"

definition SetNamedFormDataValidator ::
  "registry \<Rightarrow> string \<Rightarrow> FormHandlerBuilder \<Rightarrow> FormHandlerBuilder \<times> go_error option" where
  "SetNamedFormDataValidator reg name b =
     (case map_of (named_validators reg) name of
        None \<Rightarrow> (b, Some (UnknownServiceName name))
      | Some instance \<Rightarrow> (SetFormDataValidator instance b, None))"

definition AddNamedFormExtension ::
  "registry \<Rightarrow> string \<Rightarrow> FormHandlerBuilder \<Rightarrow> FormHandlerBuilder \<times> go_error option" where
  "AddNamedFormExtension reg name b =
     (case map_of (named_extensions reg) name of
        None \<Rightarrow> (b, Some (UnknownServiceName name))
      | Some instance \<Rightarrow> AddFormExtension instance b)"

definition configuration_abort :: string where
  "configuration_abort = ''form handler builder: configuration error''"

definition Must :: "FormHandlerBuilder \<times> go_error option \<Rightarrow> FormHandlerBuilder outcome" where
  "Must r = (case r of (b, None) \<Rightarrow> Returns b | (b, Some e) \<Rightarrow> Panics configuration_abort)"

text \<open>
  Modelled from the spec: \<^verbatim>\<open>Build\<close> and the immutable \<^verbatim>\<open>FormHandler\<close> it produces.
  A role left unset gets the package default: the default provider returns an
  empty string-keyed map, the default validator is
  \<^verbatim>\<open>DefaultFormDataValidatorImpl.Validate\<close>. The default decoder rests on external
  decoding and normalisation libraries the specification does not describe, so
  it is a parameter, as is the injected validator provider.
\<close>

record FormHandler =
  handler_provider :: FormDataProvider
  handler_decoder :: FormDataDecoder
  handler_validator :: FormDataValidator
  handler_extensions :: "FormExtension list"
  handler_validatorProvider :: ValidatorProvider

definition defaultFormDataProvider :: FormDataProvider where
  "defaultFormDataProvider ctx req = Inr (MapStringString [])"

definition defaultFormDataValidator :: FormDataValidator where
  "defaultFormDataValidator ctx req validatorProvider formData =
     returned (Validate (Some DefaultFormDataValidatorImpl) ctx req validatorProvider formData [])"

definition Build :: "FormDataDecoder \<Rightarrow> ValidatorProvider \<Rightarrow> FormHandlerBuilder \<Rightarrow> FormHandler" where
  "Build defaultFormDataDecoder validatorProvider b =
     \<lparr>handler_provider =
        (case formDataProvider b of None \<Rightarrow> defaultFormDataProvider | Some instance \<Rightarrow> instance),
      handler_decoder =
        (case formDataDecoder b of None \<Rightarrow> defaultFormDataDecoder | Some instance \<Rightarrow> instance),
      handler_validator =
        (case formDataValidator b of None \<Rightarrow> defaultFormDataValidator | Some instance \<Rightarrow> instance),
      handler_extensions = formExtensions b,
      handler_validatorProvider = validatorProvider\<rparr>"

definition CreateSimpleFormHandler :: "FormDataDecoder \<Rightarrow> ValidatorProvider \<Rightarrow> FormHandler" where
  "CreateSimpleFormHandler defaultFormDataDecoder validatorProvider =
     Build defaultFormDataDecoder validatorProvider GetFormHandlerBuilder"

text \<open>
  Modelled from the spec: the stages of the handler's pipeline. Every stage the
  handler invokes is recorded, in order.
\<close>

datatype stage_event = ProviderInvoked | DecoderInvoked | ValidatorInvoked

text \<open>
  Modelled from the spec: the Provide phase, which stores the provider's data
  object, or the empty map when the provider returns none. The specification's
  phases call on the extensions in the Validate phase only.
\<close>

definition provide :: "FormHandler \<Rightarrow> Context \<Rightarrow> Request \<Rightarrow> (go_error + dyn_value) \<times> stage_event list" where
  "provide h ctx req =
     (case handler_provider h ctx req of
        Inl e \<Rightarrow> (Inl e, [ProviderInvoked])
      | Inr NilInterface \<Rightarrow> (Inr (MapStringString []), [ProviderInvoked])
      | Inr formData \<Rightarrow> (Inr formData, [ProviderInvoked]))"

text \<open>
  Modelled from the spec: the Validate phase, which runs the configured
  validator, then every extension that implements the validator role, each
  against the decoded data. The results are aggregated by appending their
  errors; an infrastructure error or a panic of a validator stops the pipeline,
  and a validator that returns neither a result nor an error adds nothing.
\<close>

definition merge_info :: "ValidationInfo \<Rightarrow> ValidationInfo \<Rightarrow> ValidationInfo" where
  "merge_info a b =
     \<lparr>FieldErrors = FieldErrors a @ FieldErrors b, StructErrors = StructErrors a @ StructErrors b\<rparr>"

fun extension_validators :: "FormExtension list \<Rightarrow> FormDataValidator list" where
  "extension_validators [] = []"
| "extension_validators (ext # exts) =
     (case ext_validator ext of
        None \<Rightarrow> extension_validators exts
      | Some v \<Rightarrow> v # extension_validators exts)"

definition all_validators :: "FormHandler \<Rightarrow> FormDataValidator list" where
  "all_validators h = handler_validator h # extension_validators (handler_extensions h)"

fun run_validators ::
  "FormDataValidator list \<Rightarrow> Context \<Rightarrow> Request \<Rightarrow> ValidatorProvider \<Rightarrow> dyn_value
     \<Rightarrow> ValidationInfo \<Rightarrow> stage_event list
     \<Rightarrow> (go_error + ValidationInfo) outcome \<times> stage_event list" where
  "run_validators [] ctx req vp formData acc trace = (Returns (Inr acc), trace)"
| "run_validators (v # vs) ctx req vp formData acc trace =
     (case v ctx req vp formData of
        Panics msg \<Rightarrow> (Panics msg, trace @ [ValidatorInvoked])
      | Returns (_, Some e) \<Rightarrow> (Returns (Inl e), trace @ [ValidatorInvoked])
      | Returns (None, None) \<Rightarrow>
          run_validators vs ctx req vp formData acc (trace @ [ValidatorInvoked])
      | Returns (Some validationInfo, None) \<Rightarrow>
          run_validators vs ctx req vp formData (merge_info acc validationInfo)
            (trace @ [ValidatorInvoked]))"

text \<open>
  Modelled from the spec: the handler's entry points. \<^verbatim>\<open>HandleUnsubmittedForm\<close>
  runs Provide only; \<^verbatim>\<open>HandleSubmittedForm\<close> obtains the data object to populate
  from the provider, decodes the request values into it and validates the
  result, giving no form when a stage fails; \<^verbatim>\<open>HandleForm\<close> branches on the
  request's verb.
\<close>

definition HandleUnsubmittedForm ::
  "FormHandler \<Rightarrow> Context \<Rightarrow> Request \<Rightarrow> (go_error + Form) outcome \<times> stage_event list" where
  "HandleUnsubmittedForm h ctx req =
     (case provide h ctx req of
        (Inl e, trace) \<Rightarrow> (Returns (Inl e), trace)
      | (Inr formData, trace) \<Rightarrow>
          (Returns (Inr \<lparr>Data = formData, Validation = zero_ValidationInfo, IsSubmitted = False\<rparr>),
           trace))"

definition HandleSubmittedForm ::
  "FormHandler \<Rightarrow> Context \<Rightarrow> Request \<Rightarrow> (go_error + Form) outcome \<times> stage_event list" where
  "HandleSubmittedForm h ctx req =
     (case provide h ctx req of
        (Inl e, trace) \<Rightarrow> (Returns (Inl e), trace)
      | (Inr formData, trace) \<Rightarrow>
          (case handler_decoder h ctx req (form_values req) formData of
             Inl e \<Rightarrow> (Returns (Inl e), trace @ [DecoderInvoked])
           | Inr decoded \<Rightarrow>
               (case run_validators (all_validators h) ctx req (handler_validatorProvider h)
                       decoded zero_ValidationInfo (trace @ [DecoderInvoked]) of
                  (Panics msg, trace') \<Rightarrow> (Panics msg, trace')
                | (Returns (Inl e), trace') \<Rightarrow> (Returns (Inl e), trace')
                | (Returns (Inr validationInfo), trace') \<Rightarrow>
                    (Returns (Inr \<lparr>Data = decoded, Validation = validationInfo,
                                   IsSubmitted = True\<rparr>),
                     trace'))))"

definition HandleForm ::
  "FormHandler \<Rightarrow> Context \<Rightarrow> Request \<Rightarrow> (go_error + Form) outcome \<times> stage_event list" where
  "HandleForm h ctx req =
     (case verb req of
        GetLike \<Rightarrow> HandleUnsubmittedForm h ctx req
      | PostLike \<Rightarrow> HandleSubmittedForm h ctx req)"

section \<open>The two branches of Validate\<close>

lemma assert_MapStringString_ok_iff:
  "snd (assert_MapStringString formData) \<longleftrightarrow> (\<exists>m. formData = MapStringString m)"
  by (cases formData) simp_all

lemma Validate_ok:
  "snd (assert_MapStringString formData) \<Longrightarrow>
     Validate p ctx req validatorProvider formData calls =
       \<lparr>returned = Returns (Some zero_ValidationInfo, None),
        receiver_after = p, formData_after = formData, calls_after = calls\<rparr>"
  by (cases "assert_MapStringString formData") (simp add: Validate_def)

lemma Validate_delegates:
  "\<not> snd (assert_MapStringString formData) \<Longrightarrow>
     Validate p ctx req validatorProvider formData calls =
       (case provider_Validate validatorProvider ctx req formData calls of
           (Panics msg, formData', calls') \<Rightarrow>
             \<lparr>returned = Panics msg,
              receiver_after = p, formData_after = formData', calls_after = calls'\<rparr>
         | (Returns validationInfo, formData', calls') \<Rightarrow>
             \<lparr>returned = Returns (Some validationInfo, None),
              receiver_after = p, formData_after = formData', calls_after = calls'\<rparr>)"
  by (cases "assert_MapStringString formData") (simp add: Validate_def)

lemma Validate_delegates_nil:
  "\<not> snd (assert_MapStringString formData) \<Longrightarrow>
     returned (Validate p ctx req None formData calls) = Panics nil_dereference"
  by (simp add: Validate_delegates provider_Validate_def)

lemma Validate_delegates_impl:
  "\<not> snd (assert_MapStringString formData) \<Longrightarrow>
     returned (Validate p ctx req (Some impl) formData calls) =
       (case fst (impl ctx req formData) of
          Returns validationInfo \<Rightarrow> Returns (Some validationInfo, None)
        | Panics msg \<Rightarrow> Panics msg)"
  by (simp add: Validate_delegates provider_Validate_def split: outcome.splits)

lemma Validate_delegates_effects:
  "\<not> snd (assert_MapStringString formData) \<Longrightarrow>
     formData_after (Validate p ctx req validatorProvider formData calls) =
       fst (snd (provider_Validate validatorProvider ctx req formData calls))
     \<and> calls_after (Validate p ctx req validatorProvider formData calls) =
       snd (snd (provider_Validate validatorProvider ctx req formData calls))"
  by (simp add: Validate_delegates split: prod.splits outcome.splits)

lemma Validate_receiver:
  "receiver_after (Validate p ctx req validatorProvider formData calls) = p"
  by (cases "snd (assert_MapStringString formData)")
     (simp_all add: Validate_ok Validate_delegates split: prod.splits outcome.splits)

lemma Validate_returned_by_response:
  "\<not> snd (assert_MapStringString formData) \<Longrightarrow>
     returned (Validate p ctx req validatorProvider formData calls) =
       (case fst (provider_Validate validatorProvider ctx req formData calls) of
          Returns validationInfo \<Rightarrow> Returns (Some validationInfo, None)
        | Panics msg \<Rightarrow> Panics msg)"
  by (simp add: Validate_delegates split: prod.splits outcome.splits)

lemma Validate_never_error:
  "returned (Validate p ctx req validatorProvider formData calls) \<noteq> Returns (ptr, Some e)"
  by (cases "snd (assert_MapStringString formData)")
     (auto simp add: Validate_ok Validate_delegates split: prod.splits outcome.splits)

lemma Validate_never_nil_pointer:
  "returned (Validate p ctx req validatorProvider formData calls) \<noteq> Returns (None, err)"
  by (cases "snd (assert_MapStringString formData)")
     (auto simp add: Validate_ok Validate_delegates split: prod.splits outcome.splits)

lemma Validate_returns_when:
  assumes "snd (assert_MapStringString formData) \<or> provider_returns validatorProvider ctx req formData"
  shows "\<exists>validationInfo.
           returned (Validate p ctx req validatorProvider formData calls) =
             Returns (Some validationInfo, None)"
proof (cases "snd (assert_MapStringString formData)")
  case True
  then show ?thesis by (simp add: Validate_ok)
next
  case False
  with assms obtain impl validationInfo
    where "validatorProvider = Some impl"
      and "fst (impl ctx req formData) = Returns validationInfo"
    by (auto simp add: provider_returns_def split: option.splits outcome.splits)
  with False show ?thesis by (simp add: Validate_delegates_impl)
qed

lemma Validate_panics_when:
  assumes "\<not> snd (assert_MapStringString formData)"
      and "\<not> provider_returns validatorProvider ctx req formData"
  shows "\<exists>msg. returned (Validate p ctx req validatorProvider formData calls) = Panics msg"
proof (cases validatorProvider)
  case None
  with assms(1) show ?thesis by (simp add: Validate_delegates_nil)
next
  case (Some impl)
  with assms(2) obtain msg where "fst (impl ctx req formData) = Panics msg"
    by (auto simp add: provider_returns_def split: outcome.splits)
  with assms(1) Some show ?thesis by (simp add: Validate_delegates_impl)
qed

section \<open>Properties of DefaultFormDataValidatorImpl.Validate\<close>

text \<open>
  Claim C1. For every form data whose dynamic type is \<^verbatim>\<open>map[string]string\<close>,
  \<^verbatim>\<open>Validate\<close> returns a pointer to an empty \<^verbatim>\<open>ValidationInfo\<close> (valid, with no
  finding) and a nil error, and the provider is not invoked: the record of
  provider invocations is the one the call started with.
\<close>

theorem Validate_map_short_circuit:
  assumes "snd (assert_MapStringString formData)"
  shows "returned (Validate p ctx req validatorProvider formData calls) =
           Returns (Some zero_ValidationInfo, None)
         \<and> IsValid zero_ValidationInfo \<and> findings zero_ValidationInfo = 0
         \<and> calls_after (Validate p ctx req validatorProvider formData calls) = calls"
  using assms by (simp add: Validate_ok zero_ValidationInfo_def IsValid_def findings_def)

theorem Validate_map_short_circuit_witness:
  "snd (assert_MapStringString (MapStringString [(''firstname'', ''Ada'')]))
   \<and> returned (Validate (Some DefaultFormDataValidatorImpl) \<lparr>ctx_err = None\<rparr>
        \<lparr>verb = PostLike, form_values = [(''firstname'', [''Ada''])]\<rparr>
        (Some (\<lambda>c r d. (Returns \<lparr>FieldErrors = [(''firstname'', ''required'')], StructErrors = []\<rparr>, d)))
        (MapStringString [(''firstname'', ''Ada'')]) [])
      = Returns (Some \<lparr>FieldErrors = [], StructErrors = []\<rparr>, None)
   \<and> calls_after (Validate (Some DefaultFormDataValidatorImpl) \<lparr>ctx_err = None\<rparr>
        \<lparr>verb = PostLike, form_values = [(''firstname'', [''Ada''])]\<rparr>
        (Some (\<lambda>c r d. (Returns \<lparr>FieldErrors = [(''firstname'', ''required'')], StructErrors = []\<rparr>, d)))
        (MapStringString [(''firstname'', ''Ada'')]) []) = []"
  using Validate_map_short_circuit
    [of "MapStringString [(''firstname'', ''Ada'')]" "Some DefaultFormDataValidatorImpl"
        "\<lparr>ctx_err = None\<rparr>" "\<lparr>verb = PostLike, form_values = [(''firstname'', [''Ada''])]\<rparr>"
        "Some (\<lambda>c r d. (Returns \<lparr>FieldErrors = [(''firstname'', ''required'')], StructErrors = []\<rparr>, d))" "[]"]
  by (simp add: zero_ValidationInfo_def)

text \<open>
  A nil validator provider with form data that is not a \<^verbatim>\<open>map[string]string\<close>: the
  method call on the nil interface value panics, so the call returns no error
  value at all.
\<close>

theorem Validate_nil_provider_panics:
  "returned (Validate (Some DefaultFormDataValidatorImpl) \<lparr>ctx_err = None\<rparr>
        \<lparr>verb = PostLike, form_values = [(''firstname'', [''''])]\<rparr> None
        (StructValue ''AddressFormData'' [(''Firstname'', '''')]) []) = Panics nil_dereference"
  by (simp add: Validate_def provider_Validate_def)

text \<open>
  Claim C2, as amended. \<^verbatim>\<open>Validate\<close> never returns a non-nil error. It returns,
  with a nil error, whenever the form data is a \<^verbatim>\<open>map[string]string\<close> or the
  provider's \<^verbatim>\<open>Validate\<close> comes back with a value; in the one remaining case
  (the provider is nil or its \<^verbatim>\<open>Validate\<close> panics on form data of another
  type) the call panics and returns nothing.
\<close>

theorem Validate_error_always_nil:
  "returned (Validate p ctx req validatorProvider formData calls) \<noteq> Returns (ptr, Some e)
   \<and> (snd (assert_MapStringString formData) \<or> provider_returns validatorProvider ctx req formData
        \<longrightarrow> (\<exists>ptr'. returned (Validate p ctx req validatorProvider formData calls) = Returns (ptr', None)))
   \<and> (\<not> snd (assert_MapStringString formData) \<and> \<not> provider_returns validatorProvider ctx req formData
        \<longrightarrow> (\<exists>msg. returned (Validate p ctx req validatorProvider formData calls) = Panics msg))"
proof (intro conjI impI)
  show "returned (Validate p ctx req validatorProvider formData calls) \<noteq> Returns (ptr, Some e)"
    by (rule Validate_never_error)
next
  assume "snd (assert_MapStringString formData) \<or> provider_returns validatorProvider ctx req formData"
  then obtain validationInfo
    where "returned (Validate p ctx req validatorProvider formData calls) =
             Returns (Some validationInfo, None)"
    using Validate_returns_when by blast
  then show "\<exists>ptr'. returned (Validate p ctx req validatorProvider formData calls) = Returns (ptr', None)"
    by blast
next
  assume "\<not> snd (assert_MapStringString formData) \<and> \<not> provider_returns validatorProvider ctx req formData"
  then show "\<exists>msg. returned (Validate p ctx req validatorProvider formData calls) = Panics msg"
    by (simp add: Validate_panics_when)
qed

theorem Validate_error_always_nil_witness:
  "provider_returns (Some (\<lambda>c r d. (Returns \<lparr>FieldErrors = [(''firstname'', ''required'')], StructErrors = []\<rparr>, d)))
       \<lparr>ctx_err = None\<rparr> \<lparr>verb = PostLike, form_values = [(''firstname'', [''''])]\<rparr>
       (StructValue ''AddressFormData'' [(''Firstname'', '''')])
   \<and> returned (Validate (Some DefaultFormDataValidatorImpl) \<lparr>ctx_err = None\<rparr>
        \<lparr>verb = PostLike, form_values = [(''firstname'', [''''])]\<rparr>
        (Some (\<lambda>c r d. (Returns \<lparr>FieldErrors = [(''firstname'', ''required'')], StructErrors = []\<rparr>, d)))
        (StructValue ''AddressFormData'' [(''Firstname'', '''')]) [])
      \<noteq> Returns (Some \<lparr>FieldErrors = [(''firstname'', ''required'')], StructErrors = []\<rparr>, Some (DecodeError ''x''))
   \<and> (\<exists>ptr'. returned (Validate (Some DefaultFormDataValidatorImpl) \<lparr>ctx_err = None\<rparr>
        \<lparr>verb = PostLike, form_values = [(''firstname'', [''''])]\<rparr>
        (Some (\<lambda>c r d. (Returns \<lparr>FieldErrors = [(''firstname'', ''required'')], StructErrors = []\<rparr>, d)))
        (StructValue ''AddressFormData'' [(''Firstname'', '''')]) []) = Returns (ptr', None))"
  using Validate_error_always_nil
    [of "Some DefaultFormDataValidatorImpl" "\<lparr>ctx_err = None\<rparr>"
        "\<lparr>verb = PostLike, form_values = [(''firstname'', [''''])]\<rparr>"
        "Some (\<lambda>c r d. (Returns \<lparr>FieldErrors = [(''firstname'', ''required'')], StructErrors = []\<rparr>, d))"
        "StructValue ''AddressFormData'' [(''Firstname'', '''')]" "[]"
        "Some \<lparr>FieldErrors = [(''firstname'', ''required'')], StructErrors = []\<rparr>" "DecodeError ''x''"]
  by (simp add: provider_returns_def)

text \<open>
  Claim C3. For form data whose dynamic type is not \<^verbatim>\<open>map[string]string\<close>, when
  the provider's \<^verbatim>\<open>Validate(ctx, req, formData)\<close> produces a \<^verbatim>\<open>ValidationInfo\<close>,
  \<^verbatim>\<open>Validate\<close> returns a pointer to exactly that value and a nil error, having
  invoked the provider once, with the arguments it was given.
\<close>

theorem Validate_delegation_result:
  assumes "\<not> snd (assert_MapStringString formData)"
      and "validatorProvider = Some impl"
      and "fst (impl ctx req formData) = Returns validationInfo"
  shows "returned (Validate p ctx req validatorProvider formData calls) =
           Returns (Some validationInfo, None)
         \<and> calls_after (Validate p ctx req validatorProvider formData calls) =
             calls @ [\<lparr>call_ctx = ctx, call_req = req, call_data = formData\<rparr>]"
  using assms by (simp add: Validate_delegates provider_Validate_def)

theorem Validate_delegation_result_witness:
  "\<not> snd (assert_MapStringString (StructValue ''AddressFormData'' [(''Firstname'', '''')]))
   \<and> returned (Validate (Some DefaultFormDataValidatorImpl) \<lparr>ctx_err = None\<rparr>
        \<lparr>verb = PostLike, form_values = [(''firstname'', [''''])]\<rparr>
        (Some (\<lambda>c r d. (Returns \<lparr>FieldErrors = [(''firstname'', ''required'')], StructErrors = [''address'']\<rparr>, d)))
        (StructValue ''AddressFormData'' [(''Firstname'', '''')]) [])
      = Returns (Some \<lparr>FieldErrors = [(''firstname'', ''required'')], StructErrors = [''address'']\<rparr>, None)
   \<and> calls_after (Validate (Some DefaultFormDataValidatorImpl) \<lparr>ctx_err = None\<rparr>
        \<lparr>verb = PostLike, form_values = [(''firstname'', [''''])]\<rparr>
        (Some (\<lambda>c r d. (Returns \<lparr>FieldErrors = [(''firstname'', ''required'')], StructErrors = [''address'']\<rparr>, d)))
        (StructValue ''AddressFormData'' [(''Firstname'', '''')]) [])
      = [\<lparr>call_ctx = \<lparr>ctx_err = None\<rparr>,
          call_req = \<lparr>verb = PostLike, form_values = [(''firstname'', [''''])]\<rparr>,
          call_data = StructValue ''AddressFormData'' [(''Firstname'', '''')]\<rparr>]"
  using Validate_delegation_result
    [of "StructValue ''AddressFormData'' [(''Firstname'', '''')]"
        "Some (\<lambda>c r d. (Returns \<lparr>FieldErrors = [(''firstname'', ''required'')], StructErrors = [''address'']\<rparr>, d))"
        "\<lambda>c r d. (Returns \<lparr>FieldErrors = [(''firstname'', ''required'')], StructErrors = [''address'']\<rparr>, d)"
        "\<lparr>ctx_err = None\<rparr>" "\<lparr>verb = PostLike, form_values = [(''firstname'', [''''])]\<rparr>"
        "\<lparr>FieldErrors = [(''firstname'', ''required'')], StructErrors = [''address'']\<rparr>"
        "Some DefaultFormDataValidatorImpl" "[]"]
  by simp

text \<open>
  An already cancelled context with the default string-keyed map: the call
  returns the empty validation result and a nil error.
\<close>

theorem Validate_cancelled_context_succeeds:
  "returned (Validate (Some DefaultFormDataValidatorImpl) \<lparr>ctx_err = Some Canceled\<rparr>
        \<lparr>verb = PostLike, form_values = [(''email'', [''a@b.com''])]\<rparr> None
        (MapStringString [(''email'', ''a@b.com'')]) [])
     = Returns (Some \<lparr>FieldErrors = [], StructErrors = []\<rparr>, None)"
  by (simp add: Validate_def zero_ValidationInfo_def)

text \<open>
  Claim C4, as amended. \<^verbatim>\<open>Validate\<close> does not look at the context. With an already
  cancelled context it never returns an error; for a \<^verbatim>\<open>map[string]string\<close> it
  returns the empty \<^verbatim>\<open>ValidationInfo\<close> without invoking the provider, and for any
  other form data it hands the context on to the provider's \<^verbatim>\<open>Validate\<close> and
  returns what that call produced, with a nil error.
\<close>

theorem Validate_ignores_cancellation:
  assumes "ctx_err ctx \<noteq> None"
  shows "returned (Validate p ctx req validatorProvider formData calls) \<noteq> Returns (ptr, Some e)
         \<and> (snd (assert_MapStringString formData) \<longrightarrow>
              returned (Validate p ctx req validatorProvider formData calls) =
                Returns (Some zero_ValidationInfo, None)
              \<and> calls_after (Validate p ctx req validatorProvider formData calls) = calls)
         \<and> (\<not> snd (assert_MapStringString formData) \<longrightarrow>
              returned (Validate p ctx req validatorProvider formData calls) =
                (case fst (provider_Validate validatorProvider ctx req formData calls) of
                   Returns validationInfo \<Rightarrow> Returns (Some validationInfo, None)
                 | Panics msg \<Rightarrow> Panics msg)
              \<and> calls_after (Validate p ctx req validatorProvider formData calls) =
                  snd (snd (provider_Validate validatorProvider ctx req formData calls)))"
proof (intro conjI impI)
  show "returned (Validate p ctx req validatorProvider formData calls) \<noteq> Returns (ptr, Some e)"
    by (rule Validate_never_error)
qed (simp_all add: Validate_ok Validate_delegates split: prod.splits outcome.splits)

theorem Validate_ignores_cancellation_witness:
  "ctx_err \<lparr>ctx_err = Some DeadlineExceeded\<rparr> \<noteq> None
   \<and> \<not> snd (assert_MapStringString (PointerTo (StructValue ''AddressFormData'' [])))
   \<and> returned (Validate None \<lparr>ctx_err = Some DeadlineExceeded\<rparr>
        \<lparr>verb = PostLike, form_values = []\<rparr>
        (Some (\<lambda>c r d. case ctx_err c of
                  None \<Rightarrow> (Returns \<lparr>FieldErrors = [], StructErrors = []\<rparr>, d)
                | Some x \<Rightarrow> (Returns \<lparr>FieldErrors = [], StructErrors = [''context done'']\<rparr>, d)))
        (PointerTo (StructValue ''AddressFormData'' [])) [])
      = Returns (Some \<lparr>FieldErrors = [], StructErrors = [''context done'']\<rparr>, None)"
  using Validate_ignores_cancellation
    [of "\<lparr>ctx_err = Some DeadlineExceeded\<rparr>" None "\<lparr>verb = PostLike, form_values = []\<rparr>"
        "Some (\<lambda>c r d. case ctx_err c of
                  None \<Rightarrow> (Returns \<lparr>FieldErrors = [], StructErrors = []\<rparr>, d)
                | Some x \<Rightarrow> (Returns \<lparr>FieldErrors = [], StructErrors = [''context done'']\<rparr>, d))"
        "PointerTo (StructValue ''AddressFormData'' [])" "[]"]
  by (simp add: provider_Validate_def)

text \<open>
  A nil validator provider with nil form data: the assertion fails, the method
  call on the nil provider panics, and no pointer is returned.
\<close>

theorem Validate_nil_provider_no_pointer:
  "returned (Validate (Some DefaultFormDataValidatorImpl) \<lparr>ctx_err = None\<rparr>
        \<lparr>verb = PostLike, form_values = []\<rparr> None NilInterface [])
     = Panics ''invalid memory address or nil pointer dereference''"
  by (simp add: Validate_def provider_Validate_def nil_dereference_def)

text \<open>
  Claim C9, as amended. \<^verbatim>\<open>Validate\<close> never returns a nil pointer: on both
  branches the first return value is the address of a \<^verbatim>\<open>ValidationInfo\<close>. It
  returns such a pointer, with a nil error, whenever the form data is a
  \<^verbatim>\<open>map[string]string\<close> or the provider's \<^verbatim>\<open>Validate\<close> comes back with a value.
  When the form data has another type and the delegated call panics (the
  provider is nil or its \<^verbatim>\<open>Validate\<close> panics), the call panics and nothing is
  returned.
\<close>

theorem Validate_pointer_never_nil:
  "returned (Validate p ctx req validatorProvider formData calls) \<noteq> Returns (None, err)
   \<and> (snd (assert_MapStringString formData) \<or> provider_returns validatorProvider ctx req formData
        \<longrightarrow> (\<exists>validationInfo.
               returned (Validate p ctx req validatorProvider formData calls) =
                 Returns (Some validationInfo, None)))
   \<and> (\<not> snd (assert_MapStringString formData) \<and> \<not> provider_returns validatorProvider ctx req formData
        \<longrightarrow> (\<exists>msg. returned (Validate p ctx req validatorProvider formData calls) = Panics msg))"
proof (intro conjI impI)
  show "returned (Validate p ctx req validatorProvider formData calls) \<noteq> Returns (None, err)"
    by (rule Validate_never_nil_pointer)
next
  assume "snd (assert_MapStringString formData) \<or> provider_returns validatorProvider ctx req formData"
  then show "\<exists>validationInfo.
               returned (Validate p ctx req validatorProvider formData calls) =
                 Returns (Some validationInfo, None)"
    by (rule Validate_returns_when)
next
  assume "\<not> snd (assert_MapStringString formData) \<and> \<not> provider_returns validatorProvider ctx req formData"
  then show "\<exists>msg. returned (Validate p ctx req validatorProvider formData calls) = Panics msg"
    by (simp add: Validate_panics_when)
qed

theorem Validate_pointer_never_nil_witness:
  "provider_returns (Some (\<lambda>c r d. (Returns \<lparr>FieldErrors = [], StructErrors = []\<rparr>, d)))
       \<lparr>ctx_err = None\<rparr> \<lparr>verb = PostLike, form_values = []\<rparr> (NamedMap ''Params'' [])
   \<and> returned (Validate None \<lparr>ctx_err = None\<rparr> \<lparr>verb = PostLike, form_values = []\<rparr>
        (Some (\<lambda>c r d. (Returns \<lparr>FieldErrors = [], StructErrors = []\<rparr>, d))) (NamedMap ''Params'' []) [])
      \<noteq> Returns (None, None)
   \<and> (\<exists>validationInfo.
        returned (Validate None \<lparr>ctx_err = None\<rparr> \<lparr>verb = PostLike, form_values = []\<rparr>
          (Some (\<lambda>c r d. (Returns \<lparr>FieldErrors = [], StructErrors = []\<rparr>, d))) (NamedMap ''Params'' []) [])
        = Returns (Some validationInfo, None))"
  using Validate_pointer_never_nil
    [of None "\<lparr>ctx_err = None\<rparr>" "\<lparr>verb = PostLike, form_values = []\<rparr>"
        "Some (\<lambda>c r d. (Returns \<lparr>FieldErrors = [], StructErrors = []\<rparr>, d))" "NamedMap ''Params'' []" "[]" None]
  by (simp add: provider_returns_def)

text \<open>
  A provider that normalises a field through the pointer it is handed: after the
  call the struct the form data points to is not what it was.
\<close>

theorem Validate_provider_writes_through_pointer:
  "formData_after
     (Validate (Some DefaultFormDataValidatorImpl) \<lparr>ctx_err = None\<rparr>
        \<lparr>verb = PostLike, form_values = [(''firstname'', ['' Ada''])]\<rparr>
        (Some (\<lambda>c r d. (Returns \<lparr>FieldErrors = [], StructErrors = []\<rparr>,
                          PointerTo (StructValue ''AddressFormData'' [(''Firstname'', ''Ada'')]))))
        (PointerTo (StructValue ''AddressFormData'' [(''Firstname'', '' Ada'')])) [])
     = PointerTo (StructValue ''AddressFormData'' [(''Firstname'', ''Ada'')])
   \<and> formData_after
     (Validate (Some DefaultFormDataValidatorImpl) \<lparr>ctx_err = None\<rparr>
        \<lparr>verb = PostLike, form_values = [(''firstname'', ['' Ada''])]\<rparr>
        (Some (\<lambda>c r d. (Returns \<lparr>FieldErrors = [], StructErrors = []\<rparr>,
                          PointerTo (StructValue ''AddressFormData'' [(''Firstname'', ''Ada'')]))))
        (PointerTo (StructValue ''AddressFormData'' [(''Firstname'', '' Ada'')])) [])
     \<noteq> PointerTo (StructValue ''AddressFormData'' [(''Firstname'', '' Ada'')])"
  by (simp add: Validate_def provider_Validate_def)

text \<open>
  Claim C10, as amended. \<^verbatim>\<open>Validate\<close> writes nothing itself. The receiver is as
  it was. For a \<^verbatim>\<open>map[string]string\<close> the form data is as it was and the provider
  is not invoked. For any other form data the provider is invoked once, and the
  form data and the record of invocations are afterwards exactly as that one
  call left them, so the form data is unchanged unless the provider wrote
  through it. What is returned is determined by the provider's answer alone:
  two calls with equal arguments whose providers answer alike (whatever else the
  two providers do, and whatever was invoked before) return equal results.
\<close>

theorem Validate_writes_nothing_itself:
  "receiver_after (Validate p ctx req validatorProvider formData calls) = p
   \<and> (snd (assert_MapStringString formData) \<longrightarrow>
        formData_after (Validate p ctx req validatorProvider formData calls) = formData
        \<and> calls_after (Validate p ctx req validatorProvider formData calls) = calls)
   \<and> (\<not> snd (assert_MapStringString formData) \<longrightarrow>
        formData_after (Validate p ctx req validatorProvider formData calls) =
          fst (snd (provider_Validate validatorProvider ctx req formData calls))
        \<and> calls_after (Validate p ctx req validatorProvider formData calls) =
          snd (snd (provider_Validate validatorProvider ctx req formData calls))
        \<and> returned (Validate p ctx req validatorProvider formData calls) =
          (case fst (provider_Validate validatorProvider ctx req formData calls) of
             Returns validationInfo \<Rightarrow> Returns (Some validationInfo, None)
           | Panics msg \<Rightarrow> Panics msg))
   \<and> (\<not> snd (assert_MapStringString formData)
        \<and> fst (snd (provider_Validate validatorProvider ctx req formData calls)) = formData \<longrightarrow>
        formData_after (Validate p ctx req validatorProvider formData calls) = formData)
   \<and> (fst (provider_Validate validatorProvider ctx req formData calls) =
        fst (provider_Validate validatorProvider' ctx req formData calls')
      \<longrightarrow> returned (Validate p ctx req validatorProvider formData calls) =
          returned (Validate p ctx req validatorProvider' formData calls'))"
proof (intro conjI impI)
  show "receiver_after (Validate p ctx req validatorProvider formData calls) = p"
    by (rule Validate_receiver)
next
  assume "snd (assert_MapStringString formData)"
  then show "formData_after (Validate p ctx req validatorProvider formData calls) = formData"
    and "calls_after (Validate p ctx req validatorProvider formData calls) = calls"
    by (simp_all add: Validate_ok)
next
  assume other: "\<not> snd (assert_MapStringString formData)"
  then show "formData_after (Validate p ctx req validatorProvider formData calls) =
               fst (snd (provider_Validate validatorProvider ctx req formData calls))"
    and "calls_after (Validate p ctx req validatorProvider formData calls) =
               snd (snd (provider_Validate validatorProvider ctx req formData calls))"
    by (simp_all add: Validate_delegates_effects)
  from other show "returned (Validate p ctx req validatorProvider formData calls) =
          (case fst (provider_Validate validatorProvider ctx req formData calls) of
             Returns validationInfo \<Rightarrow> Returns (Some validationInfo, None)
           | Panics msg \<Rightarrow> Panics msg)"
    by (rule Validate_returned_by_response)
next
  assume "\<not> snd (assert_MapStringString formData)
            \<and> fst (snd (provider_Validate validatorProvider ctx req formData calls)) = formData"
  then show "formData_after (Validate p ctx req validatorProvider formData calls) = formData"
    by (simp add: Validate_delegates_effects)
next
  assume same: "fst (provider_Validate validatorProvider ctx req formData calls) =
                  fst (provider_Validate validatorProvider' ctx req formData calls')"
  show "returned (Validate p ctx req validatorProvider formData calls) =
          returned (Validate p ctx req validatorProvider' formData calls')"
  proof (cases "snd (assert_MapStringString formData)")
    case True
    then show ?thesis by (simp add: Validate_ok)
  next
    case False
    with same show ?thesis by (simp add: Validate_returned_by_response)
  qed
qed

theorem Validate_writes_nothing_itself_witness:
  "\<not> snd (assert_MapStringString (PointerTo (StructValue ''AddressFormData'' [(''Email'', '''')])))
   \<and> fst (provider_Validate
         (Some (\<lambda>c r d. (Returns \<lparr>FieldErrors = [(''email'', ''required'')], StructErrors = []\<rparr>, d)))
         \<lparr>ctx_err = None\<rparr> \<lparr>verb = PostLike, form_values = []\<rparr>
         (PointerTo (StructValue ''AddressFormData'' [(''Email'', '''')])) [])
     = fst (provider_Validate
         (Some (\<lambda>c r d. case verb r of
                   GetLike \<Rightarrow> (Panics ''unexpected'', d)
                 | PostLike \<Rightarrow>
                     (Returns \<lparr>FieldErrors = [(''email'', ''required'')], StructErrors = []\<rparr>,
                      PointerTo (StructValue ''AddressFormData'' [(''Email'', ''n/a'')]))))
         \<lparr>ctx_err = None\<rparr> \<lparr>verb = PostLike, form_values = []\<rparr>
         (PointerTo (StructValue ''AddressFormData'' [(''Email'', '''')]))
         [\<lparr>call_ctx = \<lparr>ctx_err = None\<rparr>, call_req = \<lparr>verb = GetLike, form_values = []\<rparr>,
           call_data = NilInterface\<rparr>])
   \<and> returned (Validate (Some DefaultFormDataValidatorImpl) \<lparr>ctx_err = None\<rparr>
         \<lparr>verb = PostLike, form_values = []\<rparr>
         (Some (\<lambda>c r d. (Returns \<lparr>FieldErrors = [(''email'', ''required'')], StructErrors = []\<rparr>, d)))
         (PointerTo (StructValue ''AddressFormData'' [(''Email'', '''')])) [])
     = returned (Validate (Some DefaultFormDataValidatorImpl) \<lparr>ctx_err = None\<rparr>
         \<lparr>verb = PostLike, form_values = []\<rparr>
         (Some (\<lambda>c r d. case verb r of
                   GetLike \<Rightarrow> (Panics ''unexpected'', d)
                 | PostLike \<Rightarrow>
                     (Returns \<lparr>FieldErrors = [(''email'', ''required'')], StructErrors = []\<rparr>,
                      PointerTo (StructValue ''AddressFormData'' [(''Email'', ''n/a'')]))))
         (PointerTo (StructValue ''AddressFormData'' [(''Email'', '''')]))
         [\<lparr>call_ctx = \<lparr>ctx_err = None\<rparr>, call_req = \<lparr>verb = GetLike, form_values = []\<rparr>,
           call_data = NilInterface\<rparr>])
   \<and> formData_after (Validate (Some DefaultFormDataValidatorImpl) \<lparr>ctx_err = None\<rparr>
         \<lparr>verb = PostLike, form_values = []\<rparr>
         (Some (\<lambda>c r d. (Returns \<lparr>FieldErrors = [(''email'', ''required'')], StructErrors = []\<rparr>, d)))
         (PointerTo (StructValue ''AddressFormData'' [(''Email'', '''')])) [])
     = PointerTo (StructValue ''AddressFormData'' [(''Email'', '''')])
   \<and> calls_after (Validate (Some DefaultFormDataValidatorImpl) \<lparr>ctx_err = None\<rparr>
         \<lparr>verb = PostLike, form_values = []\<rparr>
         (Some (\<lambda>c r d. (Returns \<lparr>FieldErrors = [(''email'', ''required'')], StructErrors = []\<rparr>, d)))
         (PointerTo (StructValue ''AddressFormData'' [(''Email'', '''')])) [])
     = [\<lparr>call_ctx = \<lparr>ctx_err = None\<rparr>, call_req = \<lparr>verb = PostLike, form_values = []\<rparr>,
         call_data = PointerTo (StructValue ''AddressFormData'' [(''Email'', '''')])\<rparr>]"
  using Validate_writes_nothing_itself
    [of "Some DefaultFormDataValidatorImpl" "\<lparr>ctx_err = None\<rparr>" "\<lparr>verb = PostLike, form_values = []\<rparr>"
        "Some (\<lambda>c r d. (Returns \<lparr>FieldErrors = [(''email'', ''required'')], StructErrors = []\<rparr>, d))"
        "PointerTo (StructValue ''AddressFormData'' [(''Email'', '''')])" "[]"
        "Some (\<lambda>c r d. case verb r of
                   GetLike \<Rightarrow> (Panics ''unexpected'', d)
                 | PostLike \<Rightarrow>
                     (Returns \<lparr>FieldErrors = [(''email'', ''required'')], StructErrors = []\<rparr>,
                      PointerTo (StructValue ''AddressFormData'' [(''Email'', ''n/a'')])))"
        "[\<lparr>call_ctx = \<lparr>ctx_err = None\<rparr>, call_req = \<lparr>verb = GetLike, form_values = []\<rparr>,
           call_data = NilInterface\<rparr>]"]
  by (auto simp add: provider_Validate_def)

section \<open>Properties of the pipeline\<close>

lemma findings_zero_ValidationInfo: "findings zero_ValidationInfo = 0"
  by (simp add: findings_def zero_ValidationInfo_def)

lemma findings_merge_info: "findings (merge_info a b) = findings a + findings b"
  by (simp add: findings_def merge_info_def)

lemma FieldErrors_foldl_merge_info:
  "FieldErrors (foldl merge_info acc infos) = FieldErrors acc @ concat (map FieldErrors infos)"
  by (induction infos arbitrary: acc) (simp_all add: merge_info_def)

lemma StructErrors_foldl_merge_info:
  "StructErrors (foldl merge_info acc infos) = StructErrors acc @ concat (map StructErrors infos)"
  by (induction infos arbitrary: acc) (simp_all add: merge_info_def)

lemma findings_foldl_merge_info:
  "findings (foldl merge_info acc infos) = findings acc + sum_list (map findings infos)"
  by (induction infos arbitrary: acc) (simp_all add: findings_merge_info)

lemma run_validators_all_report:
  assumes "map (\<lambda>v. v ctx req vp formData) vs = map (\<lambda>vi. Returns (Some vi, None)) infos"
  shows "run_validators vs ctx req vp formData acc trace =
           (Returns (Inr (foldl merge_info acc infos)),
            trace @ replicate (length vs) ValidatorInvoked)"
  using assms
proof (induction vs arbitrary: infos acc trace)
  case Nil
  then show ?case by simp
next
  case (Cons v vs)
  then obtain vi rest where infos: "infos = vi # rest"
    by (cases infos) auto
  with Cons.prems have here: "v ctx req vp formData = Returns (Some vi, None)"
    and there: "map (\<lambda>v. v ctx req vp formData) vs = map (\<lambda>vi. Returns (Some vi, None)) rest"
    by simp_all
  from Cons.IH [OF there] here infos show ?case
    by (simp add: replicate_app_Cons_same)
qed

text \<open>
  Claim C5. For each role, calling the instance setter twice and then building
  gives the handler that the second call alone would have given, with the
  second binding in that role. A named setter (for a provider, a decoder, a
  validator or an extension) called with a name that is absent from the registry
  reports \<^verbatim>\<open>UnknownServiceName\<close> and installs nothing, and \<^verbatim>\<open>Must\<close> aborts on
  that result, before any \<^verbatim>\<open>Build\<close>.
\<close>

theorem builder_override_law:
  "Build dd vp (SetFormDataProvider p2 (SetFormDataProvider p1 b)) = Build dd vp (SetFormDataProvider p2 b)
   \<and> handler_provider (Build dd vp (SetFormDataProvider p2 (SetFormDataProvider p1 b))) = p2
   \<and> Build dd vp (SetFormDataDecoder d2 (SetFormDataDecoder d1 b)) = Build dd vp (SetFormDataDecoder d2 b)
   \<and> handler_decoder (Build dd vp (SetFormDataDecoder d2 (SetFormDataDecoder d1 b))) = d2
   \<and> Build dd vp (SetFormDataValidator v2 (SetFormDataValidator v1 b)) = Build dd vp (SetFormDataValidator v2 b)
   \<and> handler_validator (Build dd vp (SetFormDataValidator v2 (SetFormDataValidator v1 b))) = v2
   \<and> (map_of (named_providers reg) name = None \<longrightarrow>
        SetNamedFormDataProvider reg name b = (b, Some (UnknownServiceName name))
        \<and> Must (SetNamedFormDataProvider reg name b) = Panics configuration_abort)
   \<and> (map_of (named_decoders reg) name = None \<longrightarrow>
        SetNamedFormDataDecoder reg name b = (b, Some (UnknownServiceName name))
        \<and> Must (SetNamedFormDataDecoder reg name b) = Panics configuration_abort)
   \<and> (map_of (named_validators reg) name = None \<longrightarrow>
        SetNamedFormDataValidator reg name b = (b, Some (UnknownServiceName name))
        \<and> Must (SetNamedFormDataValidator reg name b) = Panics configuration_abort)
   \<and> (map_of (named_extensions reg) name = None \<longrightarrow>
        AddNamedFormExtension reg name b = (b, Some (UnknownServiceName name))
        \<and> Must (AddNamedFormExtension reg name b) = Panics configuration_abort)"
  by (simp add: Build_def SetFormDataProvider_def SetFormDataDecoder_def SetFormDataValidator_def
        SetNamedFormDataProvider_def SetNamedFormDataDecoder_def SetNamedFormDataValidator_def
        AddNamedFormExtension_def Must_def)

theorem builder_override_law_witness:
  "map_of (named_providers
      \<lparr>named_providers = [(''formDataProvider.myCustom'', \<lambda>ctx req. Inr (StructValue ''AddressFormData'' []))],
       named_decoders = [], named_validators = [],
       named_extensions = [(''formExtension.csrfToken'',
          \<lparr>ext_provider = None, ext_decoder = None, ext_validator = None\<rparr>)]\<rparr>)
      ''formDataProvider.other'' = None
   \<and> map_of (named_extensions
      \<lparr>named_providers = [(''formDataProvider.myCustom'', \<lambda>ctx req. Inr (StructValue ''AddressFormData'' []))],
       named_decoders = [], named_validators = [],
       named_extensions = [(''formExtension.csrfToken'',
          \<lparr>ext_provider = None, ext_decoder = None, ext_validator = None\<rparr>)]\<rparr>)
      ''formDataProvider.other'' = None
   \<and> SetNamedFormDataProvider
      \<lparr>named_providers = [(''formDataProvider.myCustom'', \<lambda>ctx req. Inr (StructValue ''AddressFormData'' []))],
       named_decoders = [], named_validators = [],
       named_extensions = [(''formExtension.csrfToken'',
          \<lparr>ext_provider = None, ext_decoder = None, ext_validator = None\<rparr>)]\<rparr>
      ''formDataProvider.other'' GetFormHandlerBuilder
     = (GetFormHandlerBuilder, Some (UnknownServiceName ''formDataProvider.other''))
   \<and> AddNamedFormExtension
      \<lparr>named_providers = [(''formDataProvider.myCustom'', \<lambda>ctx req. Inr (StructValue ''AddressFormData'' []))],
       named_decoders = [], named_validators = [],
       named_extensions = [(''formExtension.csrfToken'',
          \<lparr>ext_provider = None, ext_decoder = None, ext_validator = None\<rparr>)]\<rparr>
      ''formDataProvider.other'' GetFormHandlerBuilder
     = (GetFormHandlerBuilder, Some (UnknownServiceName ''formDataProvider.other''))
   \<and> handler_provider
        (Build (\<lambda>ctx req values formData. Inr formData) None
          (SetFormDataProvider (\<lambda>ctx req. Inr (StructValue ''AddressFormData'' []))
            (SetFormDataProvider (\<lambda>ctx req. Inl (ProviderError ''unavailable'')) GetFormHandlerBuilder)))
        \<lparr>ctx_err = None\<rparr> \<lparr>verb = GetLike, form_values = []\<rparr>
     = Inr (StructValue ''AddressFormData'' [])"
  using builder_override_law
    [of "\<lambda>ctx req values formData. Inr formData" None
        "\<lambda>ctx req. Inr (StructValue ''AddressFormData'' [])"
        "\<lambda>ctx req. Inl (ProviderError ''unavailable'')" GetFormHandlerBuilder
        "\<lambda>ctx req values formData. Inr formData" "\<lambda>ctx req values formData. Inr formData"
        defaultFormDataValidator defaultFormDataValidator
        "\<lparr>named_providers = [(''formDataProvider.myCustom'', \<lambda>ctx req. Inr (StructValue ''AddressFormData'' []))],
       named_decoders = [], named_validators = [],
       named_extensions = [(''formExtension.csrfToken'',
          \<lparr>ext_provider = None, ext_decoder = None, ext_validator = None\<rparr>)]\<rparr>"
        "''formDataProvider.other''"]
  by (elim conjE) (simp add: fun_eq_iff)

text \<open>
  Claim C6. On a submitted request whose decoding succeeds, when the configured
  validator and the extensions that implement the validator role report the
  findings \<open>infos\<close> (one \<^verbatim>\<open>ValidationInfo\<close> each, in order), the form's
  validation result holds exactly those findings: every field error and every
  struct error of every validator, their number being the sum of the numbers
  reported, and every one of the validators was run.
\<close>

theorem HandleSubmittedForm_aggregates:
  assumes "fst (provide h ctx req) = Inr formData"
      and "handler_decoder h ctx req (form_values req) formData = Inr decoded"
      and "map (\<lambda>v. v ctx req (handler_validatorProvider h) decoded) (all_validators h) =
             map (\<lambda>vi. Returns (Some vi, None)) infos"
  shows "fst (HandleSubmittedForm h ctx req) =
           Returns (Inr \<lparr>Data = decoded, Validation = foldl merge_info zero_ValidationInfo infos,
                         IsSubmitted = True\<rparr>)
         \<and> findings (foldl merge_info zero_ValidationInfo infos) = sum_list (map findings infos)
         \<and> FieldErrors (foldl merge_info zero_ValidationInfo infos) = concat (map FieldErrors infos)
         \<and> StructErrors (foldl merge_info zero_ValidationInfo infos) = concat (map StructErrors infos)
         \<and> snd (HandleSubmittedForm h ctx req) =
             [ProviderInvoked, DecoderInvoked] @ replicate (length (all_validators h)) ValidatorInvoked"
proof -
  from assms(1) have p: "provide h ctx req = (Inr formData, [ProviderInvoked])"
    by (auto simp add: provide_def split: sum.splits dyn_value.splits)
  have r: "run_validators (all_validators h) ctx req (handler_validatorProvider h) decoded
             zero_ValidationInfo ([ProviderInvoked] @ [DecoderInvoked]) =
           (Returns (Inr (foldl merge_info zero_ValidationInfo infos)),
            ([ProviderInvoked] @ [DecoderInvoked]) @ replicate (length (all_validators h)) ValidatorInvoked)"
    by (rule run_validators_all_report [OF assms(3)])
  have "HandleSubmittedForm h ctx req =
          (Returns (Inr \<lparr>Data = decoded, Validation = foldl merge_info zero_ValidationInfo infos,
                         IsSubmitted = True\<rparr>),
           [ProviderInvoked, DecoderInvoked] @ replicate (length (all_validators h)) ValidatorInvoked)"
    using p assms(2) r by (simp add: HandleSubmittedForm_def)
  moreover have "findings (foldl merge_info zero_ValidationInfo infos) = sum_list (map findings infos)"
    by (simp add: findings_foldl_merge_info findings_zero_ValidationInfo)
  moreover have "FieldErrors (foldl merge_info zero_ValidationInfo infos) = concat (map FieldErrors infos)"
    by (simp add: FieldErrors_foldl_merge_info zero_ValidationInfo_def)
  moreover have "StructErrors (foldl merge_info zero_ValidationInfo infos) = concat (map StructErrors infos)"
    by (simp add: StructErrors_foldl_merge_info zero_ValidationInfo_def)
  ultimately show ?thesis by simp
qed

theorem HandleSubmittedForm_aggregates_witness:
  "fst (provide
          \<lparr>handler_provider = (\<lambda>ctx req. Inr (StructValue ''AddressFormData'' [])),
           handler_decoder = (\<lambda>ctx req values formData.
              Inr (StructValue ''AddressFormData'' [(''Firstname'', ''''), (''Email'', '''')])),
           handler_validator = defaultFormDataValidator,
           handler_extensions =
             [\<lparr>ext_provider = None, ext_decoder = None,
               ext_validator = Some (\<lambda>ctx req vp formData.
                  Returns (Some \<lparr>FieldErrors = [], StructErrors = [''csrfToken'']\<rparr>, None))\<rparr>,
              \<lparr>ext_provider = None, ext_decoder = None, ext_validator = None\<rparr>],
           handler_validatorProvider = Some (\<lambda>ctx req formData.
              (Returns \<lparr>FieldErrors = [(''firstname'', ''required''), (''email'', ''required'')],
                        StructErrors = []\<rparr>,
               formData))\<rparr>
          \<lparr>ctx_err = None\<rparr>
          \<lparr>verb = PostLike, form_values = [(''firstname'', ['''']), (''email'', [''''])]\<rparr>)
     = Inr (StructValue ''AddressFormData'' [])
   \<and> fst (HandleSubmittedForm
          \<lparr>handler_provider = (\<lambda>ctx req. Inr (StructValue ''AddressFormData'' [])),
           handler_decoder = (\<lambda>ctx req values formData.
              Inr (StructValue ''AddressFormData'' [(''Firstname'', ''''), (''Email'', '''')])),
           handler_validator = defaultFormDataValidator,
           handler_extensions =
             [\<lparr>ext_provider = None, ext_decoder = None,
               ext_validator = Some (\<lambda>ctx req vp formData.
                  Returns (Some \<lparr>FieldErrors = [], StructErrors = [''csrfToken'']\<rparr>, None))\<rparr>,
              \<lparr>ext_provider = None, ext_decoder = None, ext_validator = None\<rparr>],
           handler_validatorProvider = Some (\<lambda>ctx req formData.
              (Returns \<lparr>FieldErrors = [(''firstname'', ''required''), (''email'', ''required'')],
                        StructErrors = []\<rparr>,
               formData))\<rparr>
          \<lparr>ctx_err = None\<rparr>
          \<lparr>verb = PostLike, form_values = [(''firstname'', ['''']), (''email'', [''''])]\<rparr>)
     = Returns (Inr \<lparr>Data = StructValue ''AddressFormData'' [(''Firstname'', ''''), (''Email'', '''')],
                     Validation =
                       \<lparr>FieldErrors = [(''firstname'', ''required''), (''email'', ''required'')],
                        StructErrors = [''csrfToken'']\<rparr>,
                     IsSubmitted = True\<rparr>)
   \<and> findings \<lparr>FieldErrors = [(''firstname'', ''required''), (''email'', ''required'')],
                StructErrors = [''csrfToken'']\<rparr> = 3"
  using HandleSubmittedForm_aggregates
    [of "\<lparr>handler_provider = (\<lambda>ctx req. Inr (StructValue ''AddressFormData'' [])),
           handler_decoder = (\<lambda>ctx req values formData.
              Inr (StructValue ''AddressFormData'' [(''Firstname'', ''''), (''Email'', '''')])),
           handler_validator = defaultFormDataValidator,
           handler_extensions =
             [\<lparr>ext_provider = None, ext_decoder = None,
               ext_validator = Some (\<lambda>ctx req vp formData.
                  Returns (Some \<lparr>FieldErrors = [], StructErrors = [''csrfToken'']\<rparr>, None))\<rparr>,
              \<lparr>ext_provider = None, ext_decoder = None, ext_validator = None\<rparr>],
           handler_validatorProvider = Some (\<lambda>ctx req formData.
              (Returns \<lparr>FieldErrors = [(''firstname'', ''required''), (''email'', ''required'')],
                        StructErrors = []\<rparr>,
               formData))\<rparr>"
        "\<lparr>ctx_err = None\<rparr>"
        "\<lparr>verb = PostLike, form_values = [(''firstname'', ['''']), (''email'', [''''])]\<rparr>"
        "StructValue ''AddressFormData'' []"
        "StructValue ''AddressFormData'' [(''Firstname'', ''''), (''Email'', '''')]"
        "[\<lparr>FieldErrors = [(''firstname'', ''required''), (''email'', ''required'')], StructErrors = []\<rparr>,
          \<lparr>FieldErrors = [], StructErrors = [''csrfToken'']\<rparr>]"]
  by (simp add: provide_def all_validators_def defaultFormDataValidator_def Validate_def
        provider_Validate_def merge_info_def zero_ValidationInfo_def findings_def)

text \<open>
  Claim C7. A handler built with no custom provider answers an unsubmitted
  request with a form whose data is the empty string-keyed map and whose
  submission flag is false; only the provider stage runs, neither the decoder
  nor any validator. That holds for \<^verbatim>\<open>HandleUnsubmittedForm\<close> on every request
  and for \<^verbatim>\<open>HandleForm\<close> on every GET-like request.
\<close>

theorem HandleUnsubmittedForm_default_provider:
  assumes "formDataProvider b = None"
  shows "HandleUnsubmittedForm (Build defaultFormDataDecoder validatorProvider b) ctx req =
           (Returns (Inr \<lparr>Data = MapStringString [], Validation = zero_ValidationInfo,
                          IsSubmitted = False\<rparr>),
            [ProviderInvoked])
         \<and> (verb req = GetLike \<longrightarrow>
              HandleForm (Build defaultFormDataDecoder validatorProvider b) ctx req =
                (Returns (Inr \<lparr>Data = MapStringString [], Validation = zero_ValidationInfo,
                               IsSubmitted = False\<rparr>),
                 [ProviderInvoked]))"
  using assms
  by (simp add: HandleForm_def HandleUnsubmittedForm_def provide_def Build_def
        defaultFormDataProvider_def)

theorem HandleUnsubmittedForm_default_provider_witness:
  "formDataProvider GetFormHandlerBuilder = None
   \<and> verb \<lparr>verb = GetLike, form_values = []\<rparr> = GetLike
   \<and> HandleForm (Build (\<lambda>ctx req values formData. Inr formData) None GetFormHandlerBuilder)
        \<lparr>ctx_err = None\<rparr> \<lparr>verb = GetLike, form_values = []\<rparr>
      = (Returns (Inr \<lparr>Data = MapStringString [],
                       Validation = \<lparr>FieldErrors = [], StructErrors = []\<rparr>,
                       IsSubmitted = False\<rparr>),
         [ProviderInvoked])
   \<and> HandleUnsubmittedForm (CreateSimpleFormHandler (\<lambda>ctx req values formData. Inr formData) None)
        \<lparr>ctx_err = None\<rparr> \<lparr>verb = GetLike, form_values = []\<rparr>
      = (Returns (Inr \<lparr>Data = MapStringString [],
                       Validation = \<lparr>FieldErrors = [], StructErrors = []\<rparr>,
                       IsSubmitted = False\<rparr>),
         [ProviderInvoked])"
  using HandleUnsubmittedForm_default_provider
    [of GetFormHandlerBuilder "\<lambda>ctx req values formData. Inr formData" None
        "\<lparr>ctx_err = None\<rparr>" "\<lparr>verb = GetLike, form_values = []\<rparr>"]
  by (simp add: GetFormHandlerBuilder_def CreateSimpleFormHandler_def zero_ValidationInfo_def)

end
